theory Spec2Isabelle
  imports Main
begin

section \<open>The render package: content negotiation and status helpers\<close>

text \<open>
  A shallow embedding of \<^verbatim>\<open>render.go\<close>. The package keeps a process-wide registry
  (a map from content type to renderer and the list of registered content types), picks a
  renderer from the request's \<^verbatim>\<open>Accept\<close> header, and offers one helper per HTTP status.

  The Go standard library is not part of the package. The functions the package calls
  (\<^verbatim>\<open>strings.Split\<close>, \<^verbatim>\<open>strings.Join\<close>, \<^verbatim>\<open>fmt.Sprint\<close>, \<^verbatim>\<open>http.Header.Get/Set\<close>,
  \<^verbatim>\<open>json.Encoder.Encode\<close>) are modelled below from their documented behaviour, on the
  universe of values \<open>gvalue\<close>.
\<close>

subsection \<open>Values, errors and the HTTP objects\<close>

text \<open>The package's \<^verbatim>\<open>type Error struct { Message string `json:"message"` }\<close>.\<close>

record Error =
  Message :: string

text \<open>
  The values an \<^verbatim>\<open>interface{}\<close> holds in this model: \<^verbatim>\<open>nil\<close>, booleans, integers, the
  float \<^verbatim>\<open>NaN\<close> (printable, but refused by the JSON encoder), strings (byte sequences), a
  non-nil \<^verbatim>\<open>*Error\<close>, a struct value given by its exported fields in declaration order,
  each with its JSON key, and a slice of such values.
\<close>

datatype gvalue =
    GNil
  | GBool bool
  | GInt int
  | GNaN
  | GString string
  | GError Error
  | GStruct "(string \<times> gvalue) list"
  | GSlice "gvalue list"

text \<open>
  Values of Go's \<^verbatim>\<open>error\<close> interface that a render call can return: the encoder's
  \<^verbatim>\<open>UnsupportedValueError\<close>, an error reported by the response writer's \<^verbatim>\<open>Write\<close>,
  an error of a renderer defined outside the package, and \<^verbatim>\<open>errgo.Mask\<close> of an error.
\<close>

datatype go_error =
    UnsupportedValueError string
  | WriteError string
  | ExtError string
  | Mask go_error

text \<open>\<^verbatim>\<open>http.Header\<close>: a map from (canonical) header names to their values.\<close>

type_synonym Header = "string \<rightharpoonup> string list"

record Request =
  Header :: Header

text \<open>
  The response writer records what is done to it: the header map, the status code of
  the first \<^verbatim>\<open>WriteHeader\<close>, the bytes written. \<open>WriteErr\<close> is the error its
  \<^verbatim>\<open>Write\<close> reports, if the connection is broken.
\<close>

record ResponseWriter =
  HeaderMap :: Header
  wroteHeader :: bool
  Code :: int
  Body :: string
  WriteErr :: "go_error option"

text \<open>How a call ends: it returns an \<^verbatim>\<open>error\<close> (\<open>None\<close> is Go's \<^verbatim>\<open>nil\<close>) or panics.\<close>

datatype result = Returned "go_error option" | Panicked string

type_synonym outcome = "ResponseWriter \<times> result"

text \<open>
  The implementations of \<^verbatim>\<open>interface Renderer\<close>: the nil interface value, \<^verbatim>\<open>*JSON\<close>,
  \<^verbatim>\<open>*moduleRender\<close>, \<^verbatim>\<open>*handlerHelper\<close> (a struct with the single field \<open>r\<close>), and a
  renderer defined outside the package, given by what its \<^verbatim>\<open>Render\<close> method does
  (\<open>None\<close>: it does not return).
\<close>

datatype Renderer =
    NilRenderer
  | JSON
  | moduleRender
  | Helper handlerHelper
  | Ext "ResponseWriter \<Rightarrow> Request \<Rightarrow> int \<Rightarrow> gvalue \<Rightarrow> outcome option"
and handlerHelper =
    handlerHelper (handlerHelper_r: Renderer)

text \<open>
  The package-level variables \<^verbatim>\<open>register\<close> and \<^verbatim>\<open>registeredContentType\<close>, the
  lines written by \<^verbatim>\<open>log.Printf\<close> (content type and previous handler of each warning),
  and \<open>clock\<close>, the value of \<^verbatim>\<open>time.Now().Format(time.RFC1123Z)\<close>.
\<close>

record state =
  register :: "string \<rightharpoonup> Renderer"
  registeredContentType :: "string list"
  logged :: "(string \<times> Renderer) list"
  clock :: string

subsection \<open>The constants of net/http that the package uses\<close>

definition StatusOK_code :: int where "StatusOK_code = 200"
definition StatusCreated_code :: int where "StatusCreated_code = 201"
definition StatusAccepted_code :: int where "StatusAccepted_code = 202"
definition StatusBadRequest_code :: int where "StatusBadRequest_code = 400"
definition StatusUnauthorized_code :: int where "StatusUnauthorized_code = 401"
definition StatusForbidden_code :: int where "StatusForbidden_code = 403"
definition StatusNotFound_code :: int where "StatusNotFound_code = 404"
definition StatusMethodNotAllowed_code :: int where "StatusMethodNotAllowed_code = 405"
definition StatusNotAcceptable_code :: int where "StatusNotAcceptable_code = 406"
definition StatusInternalServerError_code :: int where "StatusInternalServerError_code = 500"
definition StatusServiceUnavailable_code :: int where "StatusServiceUnavailable_code = 503"

subsection \<open>strings.Split, strings.Join\<close>

text \<open>
  \<^verbatim>\<open>strings.Split(s, sep)\<close> for a one-byte separator: \<open>cur\<close> is the segment read so
  far. The result always has one element more than \<open>s\<close> has separators.
\<close>

fun Split_from :: "char \<Rightarrow> string \<Rightarrow> string \<Rightarrow> string list" where
  "Split_from sep cur [] = [cur]"
| "Split_from sep cur (c # s) =
     (if c = sep then cur # Split_from sep [] s else Split_from sep (cur @ [c]) s)"

definition strings_Split :: "string \<Rightarrow> char \<Rightarrow> string list" where
  "strings_Split s sep = Split_from sep [] s"

fun strings_Join :: "string list \<Rightarrow> string \<Rightarrow> string" where
  "strings_Join [] sep = []"
| "strings_Join [x] sep = x"
| "strings_Join (x # y # xs) sep = x @ sep @ strings_Join (y # xs) sep"

subsection \<open>http.Header and the response writer\<close>

text \<open>\<^verbatim>\<open>Header.Get\<close>: the first value of the key, the empty string when there is none.\<close>

definition Header_Get :: "Header \<Rightarrow> string \<Rightarrow> string" where
  "Header_Get h key = (case h key of None \<Rightarrow> [] | Some [] \<Rightarrow> [] | Some (v # _) \<Rightarrow> v)"

definition Header_Set :: "ResponseWriter \<Rightarrow> string \<Rightarrow> string \<Rightarrow> ResponseWriter" where
  "Header_Set w key v = w\<lparr>HeaderMap := (HeaderMap w)(key \<mapsto> [v])\<rparr>"

text \<open>\<^verbatim>\<open>WriteHeader\<close>: only the first call sets the status.\<close>

definition WriteHeader :: "ResponseWriter \<Rightarrow> int \<Rightarrow> ResponseWriter" where
  "WriteHeader w code = (if wroteHeader w then w else w\<lparr>wroteHeader := True, Code := code\<rparr>)"

text \<open>\<^verbatim>\<open>Write\<close>: sends status 200 when no status was written, then appends the bytes.\<close>

definition Write :: "ResponseWriter \<Rightarrow> string \<Rightarrow> ResponseWriter \<times> go_error option" where
  "Write w b =
     (case WriteErr w of
        Some e \<Rightarrow> (w, Some e)
      | None \<Rightarrow> (let w' = WriteHeader w StatusOK_code in (w'\<lparr>Body := Body w' @ b\<rparr>, None)))"

subsection \<open>fmt.Sprint\<close>

fun digit :: "nat \<Rightarrow> char" where
  "digit n = char_of (48 + n)"

fun FormatNat :: "nat \<Rightarrow> string" where
  "FormatNat n = (if n < 10 then [digit n] else FormatNat (n div 10) @ [digit (n mod 10)])"

declare FormatNat.simps [simp del]

definition FormatInt :: "int \<Rightarrow> string" where
  "FormatInt i = (if i < 0 then CHR ''-'' # FormatNat (nat (- i)) else FormatNat (nat i))"

text \<open>
  The verb \<^verbatim>\<open>%v\<close> on a value: strings are written as they are, an \<^verbatim>\<open>*Error\<close> through
  its \<^verbatim>\<open>Error()\<close> method (which returns the message), a struct as its field values in
  braces and a slice as its elements in brackets, both separated by single spaces
  (\<open>i\<close> is the index of the loop).
\<close>

fun printValue :: "gvalue \<Rightarrow> string"
  and printFields :: "nat \<Rightarrow> (string \<times> gvalue) list \<Rightarrow> string"
  and printElems :: "nat \<Rightarrow> gvalue list \<Rightarrow> string" where
  "printValue GNil = ''<nil>''"
| "printValue (GBool b) = (if b then ''true'' else ''false'')"
| "printValue (GInt i) = FormatInt i"
| "printValue GNaN = ''NaN''"
| "printValue (GString s) = s"
| "printValue (GError e) = Message e"
| "printValue (GStruct fs) = ''{'' @ printFields 0 fs @ ''}''"
| "printValue (GSlice xs) = ''['' @ printElems 0 xs @ '']''"
| "printFields i [] = []"
| "printFields i ((k, v) # fs) =
     (if i > 0 then '' '' else []) @ printValue v @ printFields (i + 1) fs"
| "printElems i [] = []"
| "printElems i (x # xs) =
     (if i > 0 then '' '' else []) @ printValue x @ printElems (i + 1) xs"

fun isString :: "gvalue \<Rightarrow> bool" where
  "isString (GString s) = True"
| "isString v = False"

text \<open>
  \<^verbatim>\<open>doPrint\<close>, the loop of \<^verbatim>\<open>fmt.Sprint\<close>: a space is added between two operands when
  neither is a string.
\<close>

fun doPrint :: "nat \<Rightarrow> bool \<Rightarrow> gvalue list \<Rightarrow> string" where
  "doPrint argNum prevString [] = []"
| "doPrint argNum prevString (arg # a) =
     (if argNum > 0 \<and> \<not> isString arg \<and> \<not> prevString then '' '' else [])
     @ printValue arg @ doPrint (argNum + 1) (isString arg) a"

definition fmt_Sprint :: "gvalue list \<Rightarrow> string" where
  "fmt_Sprint a = doPrint 0 False a"

subsection \<open>json.Encoder.Encode\<close>

definition hex :: "nat \<Rightarrow> char" where
  "hex n = ''0123456789abcdef'' ! (n mod 16)"

text \<open>The bytes below 0x80 that the encoder copies (its table \<^verbatim>\<open>htmlSafeSet\<close>).\<close>

definition htmlSafeSet :: "char \<Rightarrow> bool" where
  "htmlSafeSet b \<longleftrightarrow>
     (32::nat) \<le> of_char b \<and> (of_char b :: nat) < 128 \<and>
     b \<noteq> CHR 0x22 \<and> b \<noteq> CHR ''&'' \<and> b \<noteq> CHR ''<'' \<and> b \<noteq> CHR ''>'' \<and> b \<noteq> CHR 0x5C"

definition escape_byte :: "char \<Rightarrow> string" where
  "escape_byte b =
     (if b = CHR 0x5C \<or> b = CHR 0x22 then [CHR 0x5C, b]
      else if b = CHR 0x08 then [CHR 0x5C, CHR ''b'']
      else if b = CHR 0x0C then [CHR 0x5C, CHR ''f'']
      else if b = CHR 0x0A then [CHR 0x5C, CHR ''n'']
      else if b = CHR 0x0D then [CHR 0x5C, CHR ''r'']
      else if b = CHR 0x09 then [CHR 0x5C, CHR ''t'']
      else [CHR 0x5C, CHR ''u'', CHR ''0'', CHR ''0'', hex (of_char b div 16), hex (of_char b mod 16)])"

text \<open>
  The first byte of a UTF-8 sequence: its size and the range of the second byte
  (size 1: not a first byte).
\<close>

definition first :: "char \<Rightarrow> nat \<times> nat \<times> nat" where
  "first b =
     (let x = (of_char b :: nat) in
      if 0xC2 \<le> x \<and> x \<le> 0xDF then (2, 0x80, 0xBF)
      else if x = 0xE0 then (3, 0xA0, 0xBF)
      else if x = 0xED then (3, 0x80, 0x9F)
      else if 0xE1 \<le> x \<and> x \<le> 0xEF then (3, 0x80, 0xBF)
      else if x = 0xF0 then (4, 0x90, 0xBF)
      else if 0xF1 \<le> x \<and> x \<le> 0xF3 then (4, 0x80, 0xBF)
      else if x = 0xF4 then (4, 0x80, 0x8F)
      else (1, 0, 0))"

definition between :: "char \<Rightarrow> nat \<Rightarrow> nat \<Rightarrow> bool" where
  "between b lo hi \<longleftrightarrow> lo \<le> of_char b \<and> (of_char b :: nat) \<le> hi"

text \<open>
  The size that \<^verbatim>\<open>utf8.DecodeRuneInString\<close> returns on a string that starts with a
  byte from 0x80 on: 1 when the encoding is invalid.
\<close>

definition DecodeRune_size :: "string \<Rightarrow> nat" where
  "DecodeRune_size s =
     (case s of
        [] \<Rightarrow> 0
      | b0 # t \<Rightarrow>
          (case first b0 of (sz, lo, hi) \<Rightarrow>
             if sz = 1 then 1
             else if length s < sz then 1
             else if \<not> between (t ! 0) lo hi then 1
             else if sz = 2 then 2
             else if \<not> between (t ! 1) 0x80 0xBF then 1
             else if sz = 3 then 3
             else if \<not> between (t ! 2) 0x80 0xBF then 1
             else 4))"

text \<open>
  The loop of the encoder's \<^verbatim>\<open>appendString\<close> with HTML escaping on (the default of an
  \<^verbatim>\<open>Encoder\<close>): safe bytes are copied, the others below 0x80 escaped, an invalid UTF-8
  byte becomes the escape of U+FFFD, U+2028 and U+2029 are escaped, every other rune is copied.
\<close>

fun appendString_loop :: "string \<Rightarrow> string" where
  "appendString_loop [] = []"
| "appendString_loop (b # s) =
     (if (of_char b :: nat) < 0x80
      then (if htmlSafeSet b then [b] else escape_byte b) @ appendString_loop s
      else (let size = DecodeRune_size (b # s) in
            if size = 1 then [CHR 0x5C] @ ''ufffd'' @ appendString_loop s
            else if take size (b # s) = [CHR 0xE2, CHR 0x80, CHR 0xA8]
              then [CHR 0x5C] @ ''u2028'' @ appendString_loop (drop (size - 1) s)
            else if take size (b # s) = [CHR 0xE2, CHR 0x80, CHR 0xA9]
              then [CHR 0x5C] @ ''u2029'' @ appendString_loop (drop (size - 1) s)
            else take size (b # s) @ appendString_loop (drop (size - 1) s)))"

definition appendString :: "string \<Rightarrow> string" where
  "appendString src = [CHR 0x22] @ appendString_loop src @ [CHR 0x22]"

text \<open>
  The JSON encoding of a value. A struct is the object of its fields, an \<^verbatim>\<open>*Error\<close> the
  object with the one key \<^verbatim>\<open>message\<close>; \<^verbatim>\<open>NaN\<close> is refused with an
  \<^verbatim>\<open>UnsupportedValueError\<close>.
\<close>

fun marshal :: "gvalue \<Rightarrow> go_error + string"
  and marshal_fields :: "nat \<Rightarrow> (string \<times> gvalue) list \<Rightarrow> go_error + string"
  and marshal_elems :: "nat \<Rightarrow> gvalue list \<Rightarrow> go_error + string" where
  "marshal GNil = Inr ''null''"
| "marshal (GBool b) = Inr (if b then ''true'' else ''false'')"
| "marshal (GInt i) = Inr (FormatInt i)"
| "marshal GNaN = Inl (UnsupportedValueError ''NaN'')"
| "marshal (GString s) = Inr (appendString s)"
| "marshal (GError e) = Inr (''{'' @ appendString ''message'' @ '':'' @ appendString (Message e) @ ''}'')"
| "marshal (GStruct fs) =
     (case marshal_fields 0 fs of Inl e \<Rightarrow> Inl e | Inr b \<Rightarrow> Inr (''{'' @ b @ ''}''))"
| "marshal (GSlice xs) =
     (case marshal_elems 0 xs of Inl e \<Rightarrow> Inl e | Inr b \<Rightarrow> Inr (''['' @ b @ '']''))"
| "marshal_fields i [] = Inr []"
| "marshal_fields i ((k, v) # fs) =
     (case marshal v of
        Inl e \<Rightarrow> Inl e
      | Inr b \<Rightarrow>
          (case marshal_fields (i + 1) fs of
             Inl e \<Rightarrow> Inl e
           | Inr bs \<Rightarrow> Inr ((if i > 0 then '','' else []) @ appendString k @ '':'' @ b @ bs)))"
| "marshal_elems i [] = Inr []"
| "marshal_elems i (x # xs) =
     (case marshal x of
        Inl e \<Rightarrow> Inl e
      | Inr b \<Rightarrow>
          (case marshal_elems (i + 1) xs of
             Inl e \<Rightarrow> Inl e
           | Inr bs \<Rightarrow> Inr ((if i > 0 then '','' else []) @ b @ bs)))"

text \<open>
  \<^verbatim>\<open>Encode\<close> writes the JSON encoding followed by a newline character, in one
  \<^verbatim>\<open>Write\<close>; when the value cannot be encoded, nothing is written.
\<close>

definition Encoder_Encode :: "ResponseWriter \<Rightarrow> gvalue \<Rightarrow> ResponseWriter \<times> go_error option" where
  "Encoder_Encode w v =
     (case marshal v of
        Inl e \<Rightarrow> (w, Some e)
      | Inr b \<Rightarrow> Write w (b @ [CHR 0x0A]))"

subsection \<open>The registry\<close>

text \<open>
  \<^verbatim>\<open>Register\<close>: a warning is logged when the content type already has a handler; the
  handler is stored and the content type appended to the list.
\<close>

definition Register :: "string \<Rightarrow> Renderer \<Rightarrow> state \<Rightarrow> state" where
  "Register contentType handler s =
     (let s1 = (case register s contentType of
                  Some prevHandler \<Rightarrow> s\<lparr>logged := logged s @ [(contentType, prevHandler)]\<rparr>
                | None \<Rightarrow> s)
      in s1\<lparr>register := (register s1)(contentType \<mapsto> handler),
             registeredContentType := registeredContentType s1 @ [contentType]\<rparr>)"

text \<open>The package-level variables before \<^verbatim>\<open>init\<close> runs, and \<^verbatim>\<open>init\<close>.\<close>

definition start :: "string \<Rightarrow> state" where
  "start now = \<lparr>register = Map.empty, registeredContentType = [], logged = [], clock = now\<rparr>"

definition init :: "state \<Rightarrow> state" where
  "init s = Register ''*/*'' JSON (Register ''application/json'' JSON s)"

text \<open>
  The states of a process: \<^verbatim>\<open>init\<close> has run, then \<^verbatim>\<open>Register\<close> is called any number
  of times, and time passes.
\<close>

inductive reachable :: "state \<Rightarrow> bool" where
  reachable_init: "reachable (init (start now))"
| reachable_Register: "reachable s \<Longrightarrow> reachable (Register contentType handler s)"
| reachable_tick: "reachable s \<Longrightarrow> reachable (s\<lparr>clock := now\<rparr>)"

subsection \<open>The renderers\<close>

definition mkerror :: "int \<Rightarrow> string \<Rightarrow> gvalue" where
  "mkerror callDepth msg = GError \<lparr>Message = msg\<rparr>"

text \<open>\<^verbatim>\<open>(*JSON).Render\<close>; \<open>now\<close> is the formatted current time.\<close>

definition JSON_Render :: "string \<Rightarrow> ResponseWriter \<Rightarrow> Request \<Rightarrow> int \<Rightarrow> gvalue \<Rightarrow> outcome" where
  "JSON_Render now w r httpCode obj =
     (let w1 = Header_Set w ''Content-Type'' ''application/json;charset=utf-8'';
          w2 = Header_Set w1 ''Date'' now;
          w3 = WriteHeader w2 httpCode
      in case Encoder_Encode w3 obj of
           (w4, Some err) \<Rightarrow> (w4, Returned (Some (Mask err)))
         | (w4, None) \<Rightarrow> (w4, Returned None))"

text \<open>
  The loop of \<^verbatim>\<open>Render\<close> over the candidates of the \<^verbatim>\<open>Accept\<close> header, up to the
  handler it calls: \<open>Hit\<close> is the first handler found, \<open>Miss\<close> the end of the loop,
  \<open>IndexPanic\<close> an index out of range at \<^verbatim>\<open>strings.Split(accept, ";")[0]\<close>.
\<close>

datatype found = Hit Renderer | Miss | IndexPanic

fun Render_loop :: "(string \<rightharpoonup> Renderer) \<Rightarrow> string list \<Rightarrow> found" where
  "Render_loop reg [] = Miss"
| "Render_loop reg (accept # accepts) =
     (case strings_Split accept CHR '';'' of
        [] \<Rightarrow> IndexPanic
      | contentType # _ \<Rightarrow>
          (case reg contentType of
             Some handler \<Rightarrow> Hit handler
           | None \<Rightarrow> Render_loop reg accepts))"

text \<open>
  What a call runs: the package-level function \<^verbatim>\<open>Render\<close>, or the method \<^verbatim>\<open>Render\<close>
  of a renderer (the dynamic dispatch of the interface).
\<close>

datatype callee = Func_Render | Meth Renderer

text \<open>
  The calls among \<^verbatim>\<open>Render\<close>, \<^verbatim>\<open>(*moduleRender).Render\<close>, \<^verbatim>\<open>(*handlerHelper).Render\<close>
  and the registered renderers can go on forever, so the result is an option: \<open>None\<close>
  when the call does not return.
\<close>

partial_function (option) call ::
  "state \<Rightarrow> callee \<Rightarrow> ResponseWriter \<Rightarrow> Request \<Rightarrow> int \<Rightarrow> gvalue \<Rightarrow> outcome option" where
  "call s c w r httpStatus obj =
     (case c of
        Func_Render \<Rightarrow>
          (case Render_loop (register s) (strings_Split (Header_Get (Header r) ''Accept'') CHR '','') of
             Hit handler \<Rightarrow> call s (Meth handler) w r httpStatus obj
           | IndexPanic \<Rightarrow> Some (w, Panicked ''index out of range'')
           | Miss \<Rightarrow>
               call s (Meth JSON) w r StatusNotAcceptable_code
                 (mkerror 1 (fmt_Sprint [GString ''Accept header must be set to one of '',
                                         GString (strings_Join (registeredContentType s) '','')])))
      | Meth NilRenderer \<Rightarrow> Some (w, Panicked ''nil pointer dereference'')
      | Meth JSON \<Rightarrow> Some (JSON_Render (clock s) w r httpStatus obj)
      | Meth moduleRender \<Rightarrow> call s Func_Render w r httpStatus obj
      | Meth (Helper h) \<Rightarrow> call s (Meth (Helper h)) w r httpStatus obj
      | Meth (Ext f) \<Rightarrow> f w r httpStatus obj)"

text \<open>The package-level \<^verbatim>\<open>func Render\<close>.\<close>

definition Render :: "state \<Rightarrow> ResponseWriter \<Rightarrow> Request \<Rightarrow> int \<Rightarrow> gvalue \<Rightarrow> outcome option" where
  "Render s w r httpStatus obj = call s Func_Render w r httpStatus obj"

text \<open>\<open>x.Render(w, r, httpStatus, obj)\<close> on a value \<open>x\<close> of the interface.\<close>

definition Renderer_Render ::
  "state \<Rightarrow> Renderer \<Rightarrow> ResponseWriter \<Rightarrow> Request \<Rightarrow> int \<Rightarrow> gvalue \<Rightarrow> outcome option" where
  "Renderer_Render s x w r httpStatus obj = call s (Meth x) w r httpStatus obj"

subsection \<open>The status helper\<close>

definition New :: "Renderer \<Rightarrow> handlerHelper" where
  "New x = handlerHelper x"

definition handlerHelper_Render ::
  "state \<Rightarrow> handlerHelper \<Rightarrow> ResponseWriter \<Rightarrow> Request \<Rightarrow> int \<Rightarrow> gvalue \<Rightarrow> outcome option" where
  "handlerHelper_Render s h w r httpStatus obj = Renderer_Render s (Helper h) w r httpStatus obj"

definition handlerHelper_StatusOK ::
  "state \<Rightarrow> handlerHelper \<Rightarrow> ResponseWriter \<Rightarrow> Request \<Rightarrow> gvalue \<Rightarrow> outcome option" where
  "handlerHelper_StatusOK s h w r obj = Renderer_Render s (handlerHelper_r h) w r StatusOK_code obj"

definition handlerHelper_StatusCreated ::
  "state \<Rightarrow> handlerHelper \<Rightarrow> ResponseWriter \<Rightarrow> Request \<Rightarrow> gvalue \<Rightarrow> outcome option" where
  "handlerHelper_StatusCreated s h w r obj =
     Renderer_Render s (handlerHelper_r h) w r StatusCreated_code obj"

definition handlerHelper_StatusAccepted ::
  "state \<Rightarrow> handlerHelper \<Rightarrow> ResponseWriter \<Rightarrow> Request \<Rightarrow> gvalue \<Rightarrow> outcome option" where
  "handlerHelper_StatusAccepted s h w r obj =
     Renderer_Render s (handlerHelper_r h) w r StatusAccepted_code obj"

text \<open>
  The variadic \<open>args\<close> reach \<^verbatim>\<open>fmt.Sprint\<close> as one operand, the slice itself
  (\<^verbatim>\<open>fmt.Sprint(args)\<close>, not \<^verbatim>\<open>fmt.Sprint(args...)\<close>).
\<close>

definition handlerHelper_StatusBadRequest ::
  "state \<Rightarrow> handlerHelper \<Rightarrow> ResponseWriter \<Rightarrow> Request \<Rightarrow> gvalue list \<Rightarrow> outcome option" where
  "handlerHelper_StatusBadRequest s h w r args =
     Renderer_Render s (handlerHelper_r h) w r StatusBadRequest_code
       (mkerror 1 (fmt_Sprint [GSlice args]))"

definition handlerHelper_StatusUnauthorized ::
  "state \<Rightarrow> handlerHelper \<Rightarrow> ResponseWriter \<Rightarrow> Request \<Rightarrow> gvalue list \<Rightarrow> outcome option" where
  "handlerHelper_StatusUnauthorized s h w r args =
     Renderer_Render s (handlerHelper_r h) w r StatusUnauthorized_code
       (mkerror 1 (fmt_Sprint [GSlice args]))"

definition handlerHelper_StatusForbidden ::
  "state \<Rightarrow> handlerHelper \<Rightarrow> ResponseWriter \<Rightarrow> Request \<Rightarrow> gvalue list \<Rightarrow> outcome option" where
  "handlerHelper_StatusForbidden s h w r args =
     Renderer_Render s (handlerHelper_r h) w r StatusForbidden_code
       (mkerror 1 (fmt_Sprint [GSlice args]))"

definition handlerHelper_StatusMethodNotAllowed ::
  "state \<Rightarrow> handlerHelper \<Rightarrow> ResponseWriter \<Rightarrow> Request \<Rightarrow> gvalue list \<Rightarrow> outcome option" where
  "handlerHelper_StatusMethodNotAllowed s h w r args =
     Renderer_Render s (handlerHelper_r h) w r StatusMethodNotAllowed_code
       (mkerror 1 (fmt_Sprint [GSlice args]))"

definition handlerHelper_StatusNotFound ::
  "state \<Rightarrow> handlerHelper \<Rightarrow> ResponseWriter \<Rightarrow> Request \<Rightarrow> gvalue list \<Rightarrow> outcome option" where
  "handlerHelper_StatusNotFound s h w r args =
     Renderer_Render s (handlerHelper_r h) w r StatusNotFound_code
       (mkerror 1 (fmt_Sprint [GSlice args]))"

definition handlerHelper_InternalServerError ::
  "state \<Rightarrow> handlerHelper \<Rightarrow> ResponseWriter \<Rightarrow> Request \<Rightarrow> gvalue list \<Rightarrow> outcome option" where
  "handlerHelper_InternalServerError s h w r args =
     Renderer_Render s (handlerHelper_r h) w r StatusInternalServerError_code
       (mkerror 1 (fmt_Sprint [GSlice args]))"

definition handlerHelper_ServiceUnavailable ::
  "state \<Rightarrow> handlerHelper \<Rightarrow> ResponseWriter \<Rightarrow> Request \<Rightarrow> gvalue list \<Rightarrow> outcome option" where
  "handlerHelper_ServiceUnavailable s h w r args =
     Renderer_Render s (handlerHelper_r h) w r StatusServiceUnavailable_code
       (mkerror 1 (fmt_Sprint [GSlice args]))"

subsection \<open>The package-level helpers\<close>

definition DefaultStatusRenderer :: handlerHelper where
  "DefaultStatusRenderer = handlerHelper moduleRender"




definition StatusBadRequest ::
  "state \<Rightarrow> ResponseWriter \<Rightarrow> Request \<Rightarrow> gvalue list \<Rightarrow> outcome option" where
  "StatusBadRequest s w r args = handlerHelper_StatusBadRequest s DefaultStatusRenderer w r args"

definition StatusUnauthorized ::
  "state \<Rightarrow> ResponseWriter \<Rightarrow> Request \<Rightarrow> gvalue list \<Rightarrow> outcome option" where
  "StatusUnauthorized s w r args = handlerHelper_StatusUnauthorized s DefaultStatusRenderer w r args"

definition StatusForbidden ::
  "state \<Rightarrow> ResponseWriter \<Rightarrow> Request \<Rightarrow> gvalue list \<Rightarrow> outcome option" where
  "StatusForbidden s w r args = handlerHelper_StatusForbidden s DefaultStatusRenderer w r args"

definition StatusMethodNotAllowed ::
  "state \<Rightarrow> ResponseWriter \<Rightarrow> Request \<Rightarrow> gvalue list \<Rightarrow> outcome option" where
  "StatusMethodNotAllowed s w r args =
     handlerHelper_StatusMethodNotAllowed s DefaultStatusRenderer w r args"

definition StatusNotFound ::
  "state \<Rightarrow> ResponseWriter \<Rightarrow> Request \<Rightarrow> gvalue list \<Rightarrow> outcome option" where
  "StatusNotFound s w r args = handlerHelper_StatusNotFound s DefaultStatusRenderer w r args"

subsection \<open>Concrete inputs\<close>

text \<open>
  A response writer nothing was done to, a request with one \<^verbatim>\<open>Accept\<close> header, a
  request without headers, the registry right after \<^verbatim>\<open>init\<close>, and the registry after
  \<^verbatim>\<open>application/json\<close> was registered once more.
\<close>

definition fresh :: ResponseWriter where
  "fresh = \<lparr>HeaderMap = Map.empty, wroteHeader = False, Code = 0, Body = [], WriteErr = None\<rparr>"

definition request :: "string \<Rightarrow> Request" where
  "request accept = \<lparr>Header = [''Accept'' \<mapsto> [accept]]\<rparr>"

definition bare_request :: Request where
  "bare_request = \<lparr>Header = Map.empty\<rparr>"

definition now0 :: string where
  "now0 = ''Mon, 02 Jan 2006 15:04:05 -0700''"

definition s0 :: state where
  "s0 = init (start now0)"

definition s1 :: state where
  "s1 = Register ''application/json'' JSON s0"

text \<open>The part of an outcome a client sees: the status, the content type, the body, the result.\<close>

definition view :: "outcome option \<Rightarrow> (int \<times> string list option \<times> string \<times> result) option" where
  "view out = map_option (\<lambda>(w, res). (Code w, HeaderMap w ''Content-Type'', Body w, res)) out"

lemmas registry_defs = s0_def s1_def init_def start_def Register_def Let_def

declare call.simps [code]

section \<open>The calls\<close>

text \<open>The equation of \<open>call\<close>, one callee at a time.\<close>

lemma call_Func_Render:
  "call s Func_Render w r httpStatus obj =
     (case Render_loop (register s) (strings_Split (Header_Get (Header r) ''Accept'') CHR '','') of
        Hit handler \<Rightarrow> call s (Meth handler) w r httpStatus obj
      | IndexPanic \<Rightarrow> Some (w, Panicked ''index out of range'')
      | Miss \<Rightarrow>
          call s (Meth JSON) w r StatusNotAcceptable_code
            (mkerror 1 (fmt_Sprint [GString ''Accept header must be set to one of '',
                                    GString (strings_Join (registeredContentType s) '','')])))"
  by (subst call.simps) simp

lemma call_Meth_JSON: "call s (Meth JSON) w r httpStatus obj = Some (JSON_Render (clock s) w r httpStatus obj)"
  by (subst call.simps) simp

lemma call_Meth_NilRenderer:
  "call s (Meth NilRenderer) w r httpStatus obj = Some (w, Panicked ''nil pointer dereference'')"
  by (subst call.simps) simp


lemma call_Meth_Ext: "call s (Meth (Ext f)) w r httpStatus obj = f w r httpStatus obj"
  by (subst call.simps) simp

lemma call_Some_not_Helper:
  "call s c w r httpStatus obj = Some y \<Longrightarrow> c \<noteq> Meth (Helper h)"
proof (induction rule: call.raw_induct[rotated 1, consumes 1])
  case (1 call' s c w r httpStatus obj y)
  show ?case
  proof
    assume "c = Meth (Helper h)"
    with 1(2) have "call' s (Meth (Helper h)) w r httpStatus obj = Some y" by simp
    from 1(1)[OF this] show False by simp
  qed
qed

lemma call_Meth_Helper: "call s (Meth (Helper h)) w r httpStatus obj = None"
proof (cases "call s (Meth (Helper h)) w r httpStatus obj")
  case None
  then show ?thesis .
next
  case (Some y)
  from call_Some_not_Helper[OF this, of h] show ?thesis by simp
qed

lemma Split_from_first:
  "\<exists>rest. Split_from sep cur s = (cur @ takeWhile (\<lambda>x. x \<noteq> sep) s) # rest"
proof (induction s arbitrary: cur)
  case Nil
  then show ?case by simp
next
  case (Cons c s)
  from Cons[of "cur @ [c]"] Cons[of "[]"] show ?case by auto
qed

lemma strings_Split_first:
  "\<exists>rest. strings_Split s sep = takeWhile (\<lambda>x. x \<noteq> sep) s # rest"
  using Split_from_first[of sep "[]" s] by (simp add: strings_Split_def)

lemma Split_from_Join:
  "cs \<noteq> [] \<Longrightarrow> \<forall>c\<in>set cs. sep \<notin> set c \<Longrightarrow>
   Split_from sep cur (strings_Join cs [sep]) = (cur @ hd cs) # tl cs"
proof (induction cs "[sep]" arbitrary: cur rule: strings_Join.induct)
  case 1
  then show ?case by simp
next
  case (2 x)
  then show ?case
    by (induction x arbitrary: cur) auto
next
  case (3 x y xs)
  have step: "sep \<notin> set x \<Longrightarrow> Split_from sep cur (x @ sep # t) = (cur @ x) # Split_from sep [] t" for t cur
    by (induction x arbitrary: cur) auto
  from 3 show ?case by (simp add: step)
qed

lemma strings_Split_Join:
  "cs \<noteq> [] \<Longrightarrow> \<forall>c\<in>set cs. sep \<notin> set c \<Longrightarrow> strings_Split (strings_Join cs [sep]) sep = cs"
  by (simp add: strings_Split_def Split_from_Join)

lemma Render_loop_Hit:
  "\<forall>c\<in>set pre. reg (takeWhile (\<lambda>x. x \<noteq> CHR '';'') c) = None \<Longrightarrow>
   reg (takeWhile (\<lambda>x. x \<noteq> CHR '';'') a) = Some handler \<Longrightarrow>
   Render_loop reg (pre @ a # post) = Hit handler"
proof (induction pre)
  case Nil
  obtain rest where "strings_Split a CHR '';'' = takeWhile (\<lambda>x. x \<noteq> CHR '';'') a # rest"
    using strings_Split_first by blast
  with Nil show ?case by simp
next
  case (Cons c pre)
  obtain rest where "strings_Split c CHR '';'' = takeWhile (\<lambda>x. x \<noteq> CHR '';'') c # rest"
    using strings_Split_first by blast
  with Cons show ?case by simp
qed

lemma Render_loop_Miss:
  "\<forall>c\<in>set cs. reg (takeWhile (\<lambda>x. x \<noteq> CHR '';'') c) = None \<Longrightarrow> Render_loop reg cs = Miss"
proof (induction cs)
  case Nil
  then show ?case by simp
next
  case (Cons c cs)
  obtain rest where "strings_Split c CHR '';'' = takeWhile (\<lambda>x. x \<noteq> CHR '';'') c # rest"
    using strings_Split_first by blast
  with Cons show ?case by simp
qed

text \<open>The index \<^verbatim>\<open>[0]\<close> is always in range: the loop never panics.\<close>

lemma Render_loop_no_panic: "Render_loop reg cs \<noteq> IndexPanic"
proof (induction cs)
  case Nil
  then show ?case by simp
next
  case (Cons c cs)
  obtain rest where "strings_Split c CHR '';'' = takeWhile (\<lambda>x. x \<noteq> CHR '';'') c # rest"
    using strings_Split_first by blast
  with Cons show ?case by (simp split: option.splits)
qed

lemma Sprint_two_strings: "fmt_Sprint [GString a, GString b] = a @ b"
  by (simp add: fmt_Sprint_def)

lemma Renderer_Render_JSON:
  "Renderer_Render s JSON w r httpStatus obj = Some (JSON_Render (clock s) w r httpStatus obj)"
  by (simp add: Renderer_Render_def call_Meth_JSON)

lemma handlerHelper_Render_None: "handlerHelper_Render s h w r httpStatus obj = None"
  by (simp add: handlerHelper_Render_def Renderer_Render_def call_Meth_Helper)

lemma JSON_Render_Code: "\<not> wroteHeader w \<Longrightarrow> Code (fst (JSON_Render now w r code obj)) = code"
  by (simp add: JSON_Render_def Header_Set_def WriteHeader_def Encoder_Encode_def Write_def Let_def
      split: sum.splits option.splits prod.splits)

text \<open>
  \<open>strings_Split\<close> is the splitting at the separator: joining its result gives the
  string back, and no element holds a separator.
\<close>

lemma Join_Split_from: "strings_Join (Split_from sep cur s) [sep] = cur @ s"
proof (induction s arbitrary: cur)
  case Nil
  then show ?case by simp
next
  case (Cons c s)
  obtain rest where "Split_from sep [] s = takeWhile (\<lambda>x. x \<noteq> sep) s # rest"
    using Split_from_first[of sep "[]" s] by auto
  with Cons[of "[]"] Cons[of "cur @ [c]"] show ?case by auto
qed

lemma strings_Join_Split: "strings_Join (strings_Split s sep) [sep] = s"
  by (simp add: strings_Split_def Join_Split_from)

lemma Split_from_no_sep:
  "sep \<notin> set cur \<Longrightarrow> c \<in> set (Split_from sep cur s) \<Longrightarrow> sep \<notin> set c"
proof (induction s arbitrary: cur)
  case Nil
  then show ?case by simp
next
  case (Cons x s)
  show ?case
  proof (cases "x = sep")
    case True
    with Cons.prems have "c = cur \<or> c \<in> set (Split_from sep [] s)" by simp
    then show ?thesis using Cons.IH[of "[]"] Cons.prems(1) by auto
  next
    case False
    with Cons.prems have "c \<in> set (Split_from sep (cur @ [x]) s)" by simp
    moreover have "sep \<notin> set (cur @ [x])" using False Cons.prems(1) by auto
    ultimately show ?thesis using Cons.IH by blast
  qed
qed

lemma strings_Split_no_sep: "c \<in> set (strings_Split s sep) \<Longrightarrow> sep \<notin> set c"
  using Split_from_no_sep[of sep "[]" c s] by (simp add: strings_Split_def)

lemma Render_loop_single:
  assumes "reg (takeWhile (\<lambda>x. x \<noteq> CHR '';'') a) = Some handler"
  shows "Render_loop reg (a # post) = Hit handler"
proof -
  have "\<forall>c\<in>set []. reg (takeWhile (\<lambda>x. x \<noteq> CHR '';'') c) = None" by simp
  from Render_loop_Hit[OF this assms, of post] show ?thesis by (simp del: Render_loop.simps)
qed

lemma Render_Miss:
  assumes "Render_loop (register s) (strings_Split (Header_Get (Header r) ''Accept'') CHR '','') = Miss"
  shows "Render s w r httpStatus obj =
         Some (JSON_Render (clock s) w r 406
                 (GError \<lparr>Message = ''Accept header must be set to one of ''
                                      @ strings_Join (registeredContentType s) '',''\<rparr>))"
  using assms
  by (simp add: Render_def call_Func_Render call_Meth_JSON Sprint_two_strings mkerror_def
      StatusNotAcceptable_code_def)

text \<open>\<^verbatim>\<open>fmt.Sprint\<close> of one slice: the elements' \<^verbatim>\<open>%v\<close> forms, joined by spaces, in brackets.\<close>

lemma printElems_Join:
  "printElems i xs =
     (if xs = [] then [] else (if i > 0 then '' '' else []) @ strings_Join (map printValue xs) '' '')"
proof (induction xs arbitrary: i)
  case Nil
  then show ?case by simp
next
  case (Cons x xs)
  show ?case
  proof (cases xs)
    case Nil
    then show ?thesis by simp
  next
    case (Cons y ys)
    with Cons.IH[of "i + 1"] show ?thesis by simp
  qed
qed

lemma Sprint_slice:
  "fmt_Sprint [GSlice args] = ''['' @ strings_Join (map printValue args) '' '' @ '']''"
  by (simp add: fmt_Sprint_def printElems_Join)

lemma dom_Register:
  "dom (register (Register contentType handler s)) = insert contentType (dom (register s))"
  by (simp add: Register_def Let_def split: option.splits)

lemma list_Register:
  "registeredContentType (Register contentType handler s) = registeredContentType s @ [contentType]"
  by (simp add: Register_def Let_def split: option.splits)

text \<open>The JSON renderer on the concrete inputs.\<close>

lemma JSON_missing_field_x:
  \<open>view (Some (JSON_Render now0 fresh (request ''application/json'') 400
      (GError \<lparr>Message = ''[missing field x]''\<rparr>)))
   = Some (400, Some [''application/json;charset=utf-8''],
           ''{"message":"[missing field x]"}'' @ [CHR 0x0A], Returned None)\<close>
  by code_simp

lemma JSON_id_7:
  \<open>view (Some (JSON_Render now fresh r 201 (GStruct [(''id'', GInt 7)])))
   = Some (201, Some [''application/json;charset=utf-8''], ''{"id":7}'' @ [CHR 0x0A], Returned None)\<close>
  by code_simp


section \<open>Negotiation\<close>

text \<open>
  C1. \<^verbatim>\<open>Render\<close> splits the \<^verbatim>\<open>Accept\<close> value at the commas, in the order of the
  header, cuts each candidate at its first semicolon, and calls the renderer registered
  for the first candidate that has one, with the status code and the payload it was
  given; what that renderer returns is what \<^verbatim>\<open>Render\<close> returns. Here the header is the
  comma-join of the candidates \<open>pre @ a # post\<close>, none of \<open>pre\<close> is registered once cut,
  and \<open>a\<close> cut at its semicolon is registered with \<open>handler\<close>.
\<close>

theorem Render_dispatches_first_match:
  assumes "Header_Get (Header r) ''Accept'' = strings_Join (pre @ a # post) '',''"
    and "\<forall>c\<in>set (pre @ a # post). CHR '','' \<notin> set c"
    and "\<forall>c\<in>set pre. register s (takeWhile (\<lambda>x. x \<noteq> CHR '';'') c) = None"
    and "register s (takeWhile (\<lambda>x. x \<noteq> CHR '';'') a) = Some handler"
  shows "Render s w r httpStatus obj = Renderer_Render s handler w r httpStatus obj"
proof -
  have "strings_Split (Header_Get (Header r) ''Accept'') CHR '','' = pre @ a # post"
    using assms(1,2) strings_Split_Join[of "pre @ a # post" "CHR '',''"] by simp
  moreover have "Render_loop (register s) (pre @ a # post) = Hit handler"
    using assms(3,4) by (rule Render_loop_Hit)
  ultimately show ?thesis
    by (simp add: Render_def Renderer_Render_def call_Func_Render)
qed

text \<open>
  The header \<^verbatim>\<open>application/json;q=0.9\<close> reaches the renderer of \<^verbatim>\<open>application/json\<close>,
  and so does \<^verbatim>\<open>text/html,application/json;q=0.9,*/*\<close>, whose first candidate is not
  registered.
\<close>

theorem Render_dispatches_first_match_witness:
  "(register s0 ''application/json'' = Some JSON
    \<and> Render s0 fresh (request ''application/json;q=0.9'') 200 (GInt 7)
        = Renderer_Render s0 JSON fresh (request ''application/json;q=0.9'') 200 (GInt 7))
   \<and> (register s0 ''text/html'' = None
    \<and> Render s0 fresh (request ''text/html,application/json;q=0.9,*/*'') 200 (GInt 7)
        = Renderer_Render s0 JSON fresh (request ''text/html,application/json;q=0.9,*/*'') 200 (GInt 7))"
proof -
  have g1: "Header_Get (Header (request ''application/json;q=0.9'')) ''Accept''
      = strings_Join ([] @ ''application/json;q=0.9'' # []) '',''"
    by (simp add: request_def Header_Get_def)
  have g2: "\<forall>c\<in>set ([] @ ''application/json;q=0.9'' # []). CHR '','' \<notin> set c"
    by simp
  have g3: "\<forall>c\<in>set []. register s0 (takeWhile (\<lambda>x. x \<noteq> CHR '';'') c) = None"
    by simp
  have h1: "Header_Get (Header (request ''text/html,application/json;q=0.9,*/*'')) ''Accept''
     = strings_Join ([''text/html''] @ ''application/json;q=0.9'' # [''*/*'']) '',''"
    by (simp add: request_def Header_Get_def)
  have h2: "\<forall>c\<in>set ([''text/html''] @ ''application/json;q=0.9'' # [''*/*'']). CHR '','' \<notin> set c"
    by simp
  have n: "register s0 ''text/html'' = None"
    by (simp add: registry_defs)
  then have h3: "\<forall>c\<in>set [''text/html'']. register s0 (takeWhile (\<lambda>x. x \<noteq> CHR '';'') c) = None"
    by simp
  have j: "register s0 ''application/json'' = Some JSON"
    by (simp add: registry_defs)
  then have h4: "register s0 (takeWhile (\<lambda>x. x \<noteq> CHR '';'') ''application/json;q=0.9'') = Some JSON"
    by simp
  from Render_dispatches_first_match[OF g1 g2 g3 h4]
    Render_dispatches_first_match[OF h1 h2 h3 h4] n j
  show ?thesis by blast
qed

text \<open>
  C2. When no candidate of the \<^verbatim>\<open>Accept\<close> header, cut at its semicolon, is registered,
  \<^verbatim>\<open>Render\<close> returns what the JSON renderer returns for status 406 and an \<^verbatim>\<open>Error\<close>
  whose message is \<^verbatim>\<open>Accept header must be set to one of\<close> and the registered content
  types, joined by commas in the order of registration, duplicates included.
\<close>

theorem Render_no_match_renders_406:
  assumes "\<forall>c\<in>set (strings_Split (Header_Get (Header r) ''Accept'') CHR '','').
             register s (takeWhile (\<lambda>x. x \<noteq> CHR '';'') c) = None"
  shows "Render s w r httpStatus obj =
         Some (JSON_Render (clock s) w r 406
                 (GError \<lparr>Message = ''Accept header must be set to one of ''
                                      @ strings_Join (registeredContentType s) '',''\<rparr>))"
proof -
  have "Render_loop (register s) (strings_Split (Header_Get (Header r) ''Accept'') CHR '','') = Miss"
    using assms by (rule Render_loop_Miss)
  then show ?thesis by (rule Render_Miss)
qed

theorem Render_no_match_renders_406_witness:
  "strings_Split (Header_Get (Header (request ''text/unknown-xyz'')) ''Accept'') CHR '',''
     = [''text/unknown-xyz'']
   \<and> register s1 ''text/unknown-xyz'' = None
   \<and> Render s1 fresh (request ''text/unknown-xyz'') 200 GNil =
       Some (JSON_Render now0 fresh (request ''text/unknown-xyz'') 406
         (GError \<lparr>Message = ''Accept header must be set to one of application/json,*/*,application/json''\<rparr>))"
proof -
  have c: "strings_Split (Header_Get (Header (request ''text/unknown-xyz'')) ''Accept'') CHR '',''
     = [''text/unknown-xyz'']"
    by (simp add: request_def Header_Get_def strings_Split_def)
  have n: "register s1 ''text/unknown-xyz'' = None"
    by (simp add: registry_defs)
  have h: "\<forall>c\<in>set (strings_Split (Header_Get (Header (request ''text/unknown-xyz'')) ''Accept'') CHR '','').
       register s1 (takeWhile (\<lambda>x. x \<noteq> CHR '';'') c) = None"
    using n by (simp add: c)
  have "clock s1 = now0"
    and "registeredContentType s1 = [''application/json'', ''*/*'', ''application/json'']"
    by (simp_all add: registry_defs)
  with Render_no_match_renders_406[OF h, of fresh 200 GNil] c n show ?thesis by simp
qed

section \<open>The registry\<close>

text \<open>
  C4. \<^verbatim>\<open>Register\<close> always returns: it binds the handler to the content type, whatever
  was bound before, leaves the other keys as they were, appends the content type to the
  list, and logs a warning exactly when the key was bound. Registered twice, a content
  type is bound to the second handler and stands twice in the list.
\<close>

theorem Register_overwrites_and_appends:
  "register (Register contentType handler s) contentType = Some handler
   \<and> (\<forall>k. k \<noteq> contentType \<longrightarrow> register (Register contentType handler s) k = register s k)
   \<and> registeredContentType (Register contentType handler s) = registeredContentType s @ [contentType]
   \<and> logged (Register contentType handler s) =
       (case register s contentType of
          None \<Rightarrow> logged s
        | Some prevHandler \<Rightarrow> logged s @ [(contentType, prevHandler)])
   \<and> clock (Register contentType handler s) = clock s
   \<and> register (Register contentType handler' (Register contentType handler s)) contentType
       = Some handler'
   \<and> registeredContentType (Register contentType handler' (Register contentType handler s))
       = registeredContentType s @ [contentType, contentType]"
  by (simp add: Register_def Let_def split: option.splits)

theorem Register_overwrites_and_appends_witness:
  "NilRenderer \<noteq> moduleRender
   \<and> register (Register ''text/plain'' moduleRender (Register ''text/plain'' NilRenderer s0)) ''text/plain''
       = Some moduleRender
   \<and> registeredContentType (Register ''text/plain'' moduleRender (Register ''text/plain'' NilRenderer s0))
       = [''application/json'', ''*/*'', ''text/plain'', ''text/plain'']
   \<and> logged (Register ''text/plain'' moduleRender (Register ''text/plain'' NilRenderer s0))
       = [(''text/plain'', NilRenderer)]
   \<and> register (Register ''text/plain'' NilRenderer s0) ''*/*'' = Some JSON"
proof -
  have a: "registeredContentType s0 = [''application/json'', ''*/*'']" "logged s0 = []"
    "register s0 ''text/plain'' = None" "register s0 ''*/*'' = Some JSON"
    by (simp_all add: registry_defs)
  have b: "logged (Register ''text/plain'' moduleRender (Register ''text/plain'' NilRenderer s0))
       = [(''text/plain'', NilRenderer)]"
    using Register_overwrites_and_appends
        [of "''text/plain''" moduleRender "Register ''text/plain'' NilRenderer s0"]
      Register_overwrites_and_appends[of "''text/plain''" NilRenderer s0] a
    by simp
  from Register_overwrites_and_appends[of "''text/plain''" NilRenderer s0 moduleRender] a b
  show ?thesis by simp
qed

text \<open>
  C9. In every state of a process, each key of the map \<^verbatim>\<open>register\<close> stands in the list
  \<^verbatim>\<open>registeredContentType\<close>, and the two content types of \<^verbatim>\<open>init\<close>,
  \<^verbatim>\<open>application/json\<close> and \<^verbatim>\<open>*/*\<close>, are keys of the map.
\<close>

theorem registry_keys_registered:
  assumes "reachable s"
  shows "dom (register s) \<subseteq> set (registeredContentType s)
       \<and> {''application/json'', ''*/*''} \<subseteq> dom (register s)"
  using assms
proof (induction rule: reachable.induct)
  case (reachable_init now)
  show ?case by (simp add: init_def dom_Register list_Register start_def)
next
  case (reachable_Register s contentType handler)
  then show ?case by (auto simp add: dom_Register list_Register)
next
  case (reachable_tick s now)
  then show ?case by simp
qed

theorem registry_keys_registered_witness:
  "reachable s1
   \<and> dom (register s1) \<subseteq> set (registeredContentType s1)
   \<and> registeredContentType s1 = [''application/json'', ''*/*'', ''application/json'']
   \<and> register s0 ''application/json'' = Some JSON
   \<and> register s0 ''*/*'' = Some JSON
   \<and> registeredContentType s0 = [''application/json'', ''*/*'']"
proof -
  have r: "reachable s1"
    unfolding s1_def s0_def by (intro reachable.intros)
  from registry_keys_registered[OF r] r show ?thesis by (simp add: registry_defs)
qed

section \<open>The empty header and the package-level helpers\<close>

text \<open>
  C8. An empty \<^verbatim>\<open>Accept\<close> header splits into the one candidate \<^verbatim>\<open>""\<close>; when the
  empty string is not registered the loop finds nothing and \<^verbatim>\<open>Render\<close> answers 406.
\<close>

theorem Render_empty_Accept:
  assumes "Header_Get (Header r) ''Accept'' = []"
    and "register s [] = None"
  shows "strings_Split (Header_Get (Header r) ''Accept'') CHR '','' = [[]]
       \<and> Render_loop (register s) (strings_Split (Header_Get (Header r) ''Accept'') CHR '','') = Miss
       \<and> Render s w r httpStatus obj =
         Some (JSON_Render (clock s) w r 406
                 (GError \<lparr>Message = ''Accept header must be set to one of ''
                                      @ strings_Join (registeredContentType s) '',''\<rparr>))"
proof -
  have a: "strings_Split (Header_Get (Header r) ''Accept'') CHR '','' = [[]]"
    using assms(1) by (simp add: strings_Split_def)
  have b: "Render_loop (register s) (strings_Split (Header_Get (Header r) ''Accept'') CHR '','') = Miss"
    unfolding a using assms(2) by (simp add: strings_Split_def)
  from a b Render_Miss[OF b] show ?thesis by simp
qed

theorem Render_empty_Accept_witness:
  "Header_Get (Header bare_request) ''Accept'' = []
   \<and> Header_Get (Header (request [])) ''Accept'' = []
   \<and> register s0 [] = None
   \<and> strings_Split (Header_Get (Header bare_request) ''Accept'') CHR '','' = [[]]
   \<and> Render s0 fresh bare_request 200 (GInt 7)
      = Some (JSON_Render now0 fresh bare_request 406
                 (GError \<lparr>Message = ''Accept header must be set to one of application/json,*/*''\<rparr>))
   \<and> Render s0 fresh (request []) 200 (GInt 7)
      = Some (JSON_Render now0 fresh (request []) 406
                 (GError \<lparr>Message = ''Accept header must be set to one of application/json,*/*''\<rparr>))"
proof -
  have a: "Header_Get (Header bare_request) ''Accept'' = []"
    by (simp add: bare_request_def Header_Get_def)
  have a': "Header_Get (Header (request [])) ''Accept'' = []"
    by (simp add: request_def Header_Get_def)
  have b: "register s0 [] = None"
    by (simp add: registry_defs)
  have "clock s0 = now0" "registeredContentType s0 = [''application/json'', ''*/*'']"
    by (simp_all add: registry_defs)
  with Render_empty_Accept[OF a b, of fresh 200 "GInt 7"]
    Render_empty_Accept[OF a' b, of fresh 200 "GInt 7"] a a' b
  show ?thesis by simp
qed



section \<open>The JSON renderer\<close>

text \<open>
  C7. With the header \<^verbatim>\<open>Accept: application/json\<close> and \<^verbatim>\<open>application/json\<close>
  registered with the JSON renderer, rendering status 201 and the payload
  \<^verbatim>\<open>{"id": 7}\<close> on a new writer writes the status 201, the header
  \<^verbatim>\<open>Content-Type: application/json;charset=utf-8\<close>, and as body the JSON encoding
  \<^verbatim>\<open>{"id":7}\<close> followed by one newline byte; the call returns no error.
\<close>

theorem Render_json_created:
  assumes "Header_Get (Header r) ''Accept'' = ''application/json''"
    and "register s ''application/json'' = Some JSON"
  shows \<open>view (Render s fresh r 201 (GStruct [(''id'', GInt 7)]))
         = Some (201, Some [''application/json;charset=utf-8''],
                 ''{"id":7}'' @ [CHR 0x0A], Returned None)\<close>
proof -
  have "strings_Split ''application/json'' CHR '','' = [''application/json'']"
    by (simp add: strings_Split_def)
  moreover have "Render_loop (register s) [''application/json''] = Hit JSON"
    using assms(2) by (intro Render_loop_single) simp
  ultimately have "Render s fresh r 201 (GStruct [(''id'', GInt 7)])
      = Some (JSON_Render (clock s) fresh r 201 (GStruct [(''id'', GInt 7)]))"
    using assms(1) by (simp add: Render_def call_Func_Render call_Meth_JSON)
  then show ?thesis by (simp only: JSON_id_7)
qed

theorem Render_json_created_witness:
  \<open>Header_Get (Header (request ''application/json'')) ''Accept'' = ''application/json''
   \<and> register s0 ''application/json'' = Some JSON
   \<and> view (Render s0 fresh (request ''application/json'') 201 (GStruct [(''id'', GInt 7)]))
       = Some (201, Some [''application/json;charset=utf-8''],
               ''{"id":7}'' @ [CHR 0x0A], Returned None)\<close>
proof -
  have a: "Header_Get (Header (request ''application/json'')) ''Accept'' = ''application/json''"
    by (simp add: request_def Header_Get_def)
  have b: "register s0 ''application/json'' = Some JSON"
    by (simp add: registry_defs)
  from Render_json_created[OF a b] a b show ?thesis by simp
qed

text \<open>The body is not the eight bytes \<^verbatim>\<open>{"id":7}\<close> alone: the encoder ends it with a newline.\<close>

theorem Render_json_created_counterexample:
  \<open>map_option (\<lambda>(w, res). Body w)
     (Render s0 fresh (request ''application/json'') 201 (GStruct [(''id'', GInt 7)]))
   \<noteq> Some ''{"id":7}''\<close>
  by code_simp

section \<open>The status helper\<close>

text \<open>
  C3. The method \<^verbatim>\<open>Render\<close> of the status helper calls itself, not the renderer it
  wraps: on a helper around the JSON renderer the call never returns, where the wrapped
  renderer returns the JSON response.
\<close>

theorem handlerHelper_Render_calls_itself:
  "handlerHelper_Render s0 (New JSON) fresh (request ''application/json'') 200 (GInt 7) = None
   \<and> Renderer_Render s0 (handlerHelper_r (New JSON)) fresh (request ''application/json'') 200 (GInt 7)
       = Some (JSON_Render now0 fresh (request ''application/json'') 200 (GInt 7))"
  by (simp add: handlerHelper_Render_None New_def Renderer_Render_JSON registry_defs)

text \<open>
  C5. Each operation of the status helper calls the wrapped renderer with the status of
  its name: \<^verbatim>\<open>StatusOK\<close> 200, \<^verbatim>\<open>StatusCreated\<close> 201, \<^verbatim>\<open>StatusAccepted\<close> 202,
  \<^verbatim>\<open>StatusBadRequest\<close> 400, \<^verbatim>\<open>StatusUnauthorized\<close> 401, \<^verbatim>\<open>StatusForbidden\<close> 403,
  \<^verbatim>\<open>StatusNotFound\<close> 404, \<^verbatim>\<open>StatusMethodNotAllowed\<close> 405, \<^verbatim>\<open>InternalServerError\<close> 500
  and \<^verbatim>\<open>ServiceUnavailable\<close> 503.
\<close>

theorem status_helper_codes:
  "handlerHelper_StatusOK s h w r obj = Renderer_Render s (handlerHelper_r h) w r 200 obj
   \<and> handlerHelper_StatusCreated s h w r obj = Renderer_Render s (handlerHelper_r h) w r 201 obj
   \<and> handlerHelper_StatusAccepted s h w r obj = Renderer_Render s (handlerHelper_r h) w r 202 obj
   \<and> handlerHelper_StatusBadRequest s h w r args
       = Renderer_Render s (handlerHelper_r h) w r 400 (mkerror 1 (fmt_Sprint [GSlice args]))
   \<and> handlerHelper_StatusUnauthorized s h w r args
       = Renderer_Render s (handlerHelper_r h) w r 401 (mkerror 1 (fmt_Sprint [GSlice args]))
   \<and> handlerHelper_StatusForbidden s h w r args
       = Renderer_Render s (handlerHelper_r h) w r 403 (mkerror 1 (fmt_Sprint [GSlice args]))
   \<and> handlerHelper_StatusNotFound s h w r args
       = Renderer_Render s (handlerHelper_r h) w r 404 (mkerror 1 (fmt_Sprint [GSlice args]))
   \<and> handlerHelper_StatusMethodNotAllowed s h w r args
       = Renderer_Render s (handlerHelper_r h) w r 405 (mkerror 1 (fmt_Sprint [GSlice args]))
   \<and> handlerHelper_InternalServerError s h w r args
       = Renderer_Render s (handlerHelper_r h) w r 500 (mkerror 1 (fmt_Sprint [GSlice args]))
   \<and> handlerHelper_ServiceUnavailable s h w r args
       = Renderer_Render s (handlerHelper_r h) w r 503 (mkerror 1 (fmt_Sprint [GSlice args]))"
  by (simp add: handlerHelper_StatusOK_def handlerHelper_StatusCreated_def
      handlerHelper_StatusAccepted_def handlerHelper_StatusBadRequest_def
      handlerHelper_StatusUnauthorized_def handlerHelper_StatusForbidden_def
      handlerHelper_StatusNotFound_def handlerHelper_StatusMethodNotAllowed_def
      handlerHelper_InternalServerError_def handlerHelper_ServiceUnavailable_def
      StatusOK_code_def StatusCreated_code_def StatusAccepted_code_def StatusBadRequest_code_def
      StatusUnauthorized_code_def StatusForbidden_code_def StatusNotFound_code_def
      StatusMethodNotAllowed_code_def StatusInternalServerError_code_def
      StatusServiceUnavailable_code_def)

text \<open>The statuses a helper around the JSON renderer writes on a new writer.\<close>

theorem status_helper_codes_witness:
  "map_option (\<lambda>(w, res). Code w)
     (handlerHelper_StatusOK s0 (New JSON) fresh (request ''*/*'') GNil) = Some 200
   \<and> map_option (\<lambda>(w, res). Code w)
     (handlerHelper_StatusCreated s0 (New JSON) fresh (request ''*/*'') GNil) = Some 201
   \<and> map_option (\<lambda>(w, res). Code w)
     (handlerHelper_StatusAccepted s0 (New JSON) fresh (request ''*/*'') GNil) = Some 202
   \<and> map_option (\<lambda>(w, res). Code w)
     (handlerHelper_StatusBadRequest s0 (New JSON) fresh (request ''*/*'') []) = Some 400
   \<and> map_option (\<lambda>(w, res). Code w)
     (handlerHelper_StatusUnauthorized s0 (New JSON) fresh (request ''*/*'') []) = Some 401
   \<and> map_option (\<lambda>(w, res). Code w)
     (handlerHelper_StatusForbidden s0 (New JSON) fresh (request ''*/*'') []) = Some 403
   \<and> map_option (\<lambda>(w, res). Code w)
     (handlerHelper_StatusNotFound s0 (New JSON) fresh (request ''*/*'') []) = Some 404
   \<and> map_option (\<lambda>(w, res). Code w)
     (handlerHelper_StatusMethodNotAllowed s0 (New JSON) fresh (request ''*/*'') []) = Some 405
   \<and> map_option (\<lambda>(w, res). Code w)
     (handlerHelper_InternalServerError s0 (New JSON) fresh (request ''*/*'') []) = Some 500
   \<and> map_option (\<lambda>(w, res). Code w)
     (handlerHelper_ServiceUnavailable s0 (New JSON) fresh (request ''*/*'') []) = Some 503"
proof -
  have f: "\<not> wroteHeader fresh" by (simp add: fresh_def)
  have c: "map_option (\<lambda>(w, res). Code w) (Renderer_Render s0 JSON fresh r code obj) = Some code"
    for r code obj
    using JSON_Render_Code[OF f, of "clock s0" r code obj]
    by (simp add: Renderer_Render_JSON case_prod_beta)
  from status_helper_codes[of s0 "New JSON" fresh "request ''*/*''" GNil "[]"]
  show ?thesis by (simp add: New_def c)
qed

text \<open>\<^verbatim>\<open>StatusForbidden\<close> does not render 402, nor \<^verbatim>\<open>ServiceUnavailable\<close> 501.\<close>

theorem status_helper_codes_counterexample:
  "handlerHelper_StatusForbidden s0 (New JSON) fresh (request ''application/json'') []
     \<noteq> Renderer_Render s0 (handlerHelper_r (New JSON)) fresh (request ''application/json'') 402
          (mkerror 1 (fmt_Sprint [GSlice []]))
   \<and> handlerHelper_ServiceUnavailable s0 (New JSON) fresh (request ''application/json'') []
     \<noteq> Renderer_Render s0 (handlerHelper_r (New JSON)) fresh (request ''application/json'') 501
          (mkerror 1 (fmt_Sprint [GSlice []]))"
proof -
  have f: "\<not> wroteHeader fresh" by (simp add: fresh_def)
  have ne: "JSON_Render now fresh r c obj \<noteq> JSON_Render now fresh r c' obj"
    if "c \<noteq> c'" for now r c c' obj
    using JSON_Render_Code[OF f, of now r c obj] JSON_Render_Code[OF f, of now r c' obj] that
    by auto
  show ?thesis
    by (simp add: handlerHelper_StatusForbidden_def handlerHelper_ServiceUnavailable_def
        New_def Renderer_Render_JSON StatusForbidden_code_def StatusServiceUnavailable_code_def ne)
qed

text \<open>
  C6. Each 4xx and 5xx operation of the status helper passes the wrapped renderer one
  \<^verbatim>\<open>Error\<close> whose message is what \<^verbatim>\<open>fmt.Sprint\<close> gives for the slice of the arguments:
  their default forms, joined by single spaces, between brackets.
\<close>

theorem status_helper_error_message:
  "handlerHelper_StatusBadRequest s h w r args
     = Renderer_Render s (handlerHelper_r h) w r StatusBadRequest_code
         (GError \<lparr>Message = ''['' @ strings_Join (map printValue args) '' '' @ '']''\<rparr>)
   \<and> handlerHelper_StatusUnauthorized s h w r args
     = Renderer_Render s (handlerHelper_r h) w r StatusUnauthorized_code
         (GError \<lparr>Message = ''['' @ strings_Join (map printValue args) '' '' @ '']''\<rparr>)
   \<and> handlerHelper_StatusForbidden s h w r args
     = Renderer_Render s (handlerHelper_r h) w r StatusForbidden_code
         (GError \<lparr>Message = ''['' @ strings_Join (map printValue args) '' '' @ '']''\<rparr>)
   \<and> handlerHelper_StatusMethodNotAllowed s h w r args
     = Renderer_Render s (handlerHelper_r h) w r StatusMethodNotAllowed_code
         (GError \<lparr>Message = ''['' @ strings_Join (map printValue args) '' '' @ '']''\<rparr>)
   \<and> handlerHelper_StatusNotFound s h w r args
     = Renderer_Render s (handlerHelper_r h) w r StatusNotFound_code
         (GError \<lparr>Message = ''['' @ strings_Join (map printValue args) '' '' @ '']''\<rparr>)
   \<and> handlerHelper_InternalServerError s h w r args
     = Renderer_Render s (handlerHelper_r h) w r StatusInternalServerError_code
         (GError \<lparr>Message = ''['' @ strings_Join (map printValue args) '' '' @ '']''\<rparr>)
   \<and> handlerHelper_ServiceUnavailable s h w r args
     = Renderer_Render s (handlerHelper_r h) w r StatusServiceUnavailable_code
         (GError \<lparr>Message = ''['' @ strings_Join (map printValue args) '' '' @ '']''\<rparr>)"
  by (simp add: handlerHelper_StatusBadRequest_def
      handlerHelper_StatusUnauthorized_def handlerHelper_StatusForbidden_def
      handlerHelper_StatusNotFound_def handlerHelper_StatusMethodNotAllowed_def
      handlerHelper_InternalServerError_def handlerHelper_ServiceUnavailable_def
      mkerror_def Sprint_slice)

text \<open>
  \<^verbatim>\<open>StatusBadRequest\<close> with the arguments \<^verbatim>\<open>"missing", "field", "x"\<close>, on a helper
  around the JSON renderer.
\<close>

theorem status_helper_error_message_witness:
  \<open>view (handlerHelper_StatusBadRequest s0 (New JSON) fresh (request ''application/json'')
      [GString ''missing'', GString ''field'', GString ''x''])
   = Some (400, Some [''application/json;charset=utf-8''],
           ''{"message":"[missing field x]"}'' @ [CHR 0x0A], Returned None)\<close>
proof -
  have "clock s0 = now0" by (simp add: registry_defs)
  moreover have "handlerHelper_StatusBadRequest s0 (New JSON) fresh (request ''application/json'')
      [GString ''missing'', GString ''field'', GString ''x'']
    = Renderer_Render s0 JSON fresh (request ''application/json'') 400
         (GError \<lparr>Message = ''[missing field x]''\<rparr>)"
    using status_helper_error_message[of s0 "New JSON" fresh "request ''application/json''"
        "[GString ''missing'', GString ''field'', GString ''x'']"]
    by (simp add: New_def StatusBadRequest_code_def)
  ultimately show ?thesis
    using JSON_missing_field_x by (simp add: Renderer_Render_JSON)
qed

end
